theory Spec2Isabelle
  imports Complex_Main
begin

section \<open>Python values, exceptions and formatting\<close>

text \<open>
  The WiZ controller (\<^verbatim>\<open>wiz_bulb_controller.py\<close>) and the tool layer on top of it
  (\<^verbatim>\<open>smart_bulb_server.py\<close>) exchange JSON documents with a bulb and hand
  dictionaries back to their caller.  Both are values of one type: what
  \<^verbatim>\<open>json.loads\<close> can return, which is also what the tool layer puts in its result
  dictionaries.  A dictionary is an association list read with \<open>map_of\<close>; its keys
  are strings, as JSON has them.  A float is carried as the rational it denotes (the
  literals \<^verbatim>\<open>NaN\<close> and \<^verbatim>\<open>Infinity\<close> that \<^verbatim>\<open>json.loads\<close> also accepts are left out).
\<close>

datatype pyval =
    PNone
  | PBool bool
  | PInt int
  | PFloat rat
  | PStr string
  | PList "pyval list"
  | PDict "(string \<times> pyval) list"

text \<open>The exceptions the two files raise or can meet, each with its message.\<close>

datatype pyexc =
    ValueError string
  | AttributeError string

fun exc_str :: "pyexc \<Rightarrow> string" where
  "exc_str (ValueError m) = m"
| "exc_str (AttributeError m) = m"

text \<open>A call either returns a value or raises.\<close>

datatype 'a outcome = Returned 'a | Raised pyexc

text \<open>Truthiness, as \<^verbatim>\<open>if x\<close> and \<^verbatim>\<open>a if x else b\<close> test it.\<close>

fun py_truthy :: "pyval \<Rightarrow> bool" where
  "py_truthy PNone = False"
| "py_truthy (PBool b) = b"
| "py_truthy (PInt i) = (i \<noteq> 0)"
| "py_truthy (PFloat q) = (q \<noteq> 0)"
| "py_truthy (PStr s) = (s \<noteq> [])"
| "py_truthy (PList xs) = (xs \<noteq> [])"
| "py_truthy (PDict kvs) = (kvs \<noteq> [])"

fun type_name :: "pyval \<Rightarrow> string" where
  "type_name PNone = ''NoneType''"
| "type_name (PBool b) = ''bool''"
| "type_name (PInt i) = ''int''"
| "type_name (PFloat q) = ''float''"
| "type_name (PStr s) = ''str''"
| "type_name (PList xs) = ''list''"
| "type_name (PDict kvs) = ''dict''"

text \<open>
  \<^verbatim>\<open>x.get(key, default)\<close>: a dictionary answers, every other value has no attribute
  \<^verbatim>\<open>get\<close> and the call raises \<^verbatim>\<open>AttributeError\<close>.
\<close>

fun py_get :: "pyval \<Rightarrow> string \<Rightarrow> pyval \<Rightarrow> pyval outcome" where
  "py_get (PDict kvs) k d = Returned (case map_of kvs k of Some v \<Rightarrow> v | None \<Rightarrow> d)"
| "py_get v k d =
     Raised (AttributeError ([CHR 0x27] @ type_name v @ [CHR 0x27] @ '' object has no attribute '' @ [CHR 0x27] @ ''get'' @ [CHR 0x27]))"

text \<open>Decimal text of an integer, as \<^verbatim>\<open>str\<close> and an f-string give it.\<close>

definition digit_char :: "nat \<Rightarrow> char" where
  "digit_char d = ''0123456789'' ! d"

function str_nat :: "nat \<Rightarrow> string" where
  "str_nat n = (if n < 10 then [digit_char n] else str_nat (n div 10) @ [digit_char (n mod 10)])"
  by pat_completeness auto
termination
  by (relation "measure id") auto

declare str_nat.simps [simp del]

definition str_int :: "int \<Rightarrow> string" where
  "str_int i = (if i < 0 then ''-'' @ str_nat (nat (- i)) else str_nat (nat i))"

text \<open>
  \<^verbatim>\<open>str(v)\<close> of a value inside an f-string.  For floats, lists and dictionaries the text
  is Python's \<^verbatim>\<open>repr\<close>, which is not modelled: it is the parameter \<open>repr\<close>.
\<close>

fun py_str :: "(pyval \<Rightarrow> string) \<Rightarrow> pyval \<Rightarrow> string" where
  "py_str repr PNone = ''None''"
| "py_str repr (PBool b) = (if b then ''True'' else ''False'')"
| "py_str repr (PInt i) = str_int i"
| "py_str repr (PStr s) = s"
| "py_str repr v = repr v"

section \<open>The command channel\<close>

text \<open>
  \<^verbatim>\<open>WizBulbController.__init__\<close> stores the address, the port and the timeout (its
  fourth attribute, \<^verbatim>\<open>socket\<close>, is set to \<^verbatim>\<open>None\<close> and never used again).
\<close>

record controller =
  bulb_ip :: string
  port :: nat
  timeout :: rat

definition WizBulbController :: "string \<Rightarrow> nat \<Rightarrow> rat \<Rightarrow> controller" where
  "WizBulbController ip p t = \<lparr>bulb_ip = ip, port = p, timeout = t\<rparr>"

text \<open>
  What the network does with one exchange is the environment's choice.  An exception
  leaves the \<^verbatim>\<open>try\<close> block at one of three places: creating the socket, sending, or
  receiving; it is \<^verbatim>\<open>socket.timeout\<close> or another exception with its text.  Otherwise a
  datagram arrives, and \<^verbatim>\<open>json.loads(data.decode('utf-8'))\<close> either raises
  (\<open>Malformed\<close>, with the datagram and the exception's text) or yields a value
  (\<open>Reply\<close>).
\<close>

datatype stage = AtCreate | AtSend | AtRecv

datatype fault = Timeout | Failure string

datatype net_event =
    Fault stage fault
  | Malformed string string
  | Reply pyval

type_synonym network = "controller \<Rightarrow> pyval \<Rightarrow> net_event"

text \<open>
  The observable effects: the commands handed to the channel (one entry per exchange
  attempted), the sockets created, the sockets closed, and the lines printed.
\<close>

record world =
  calls :: "(string \<times> pyval) list"
  opened :: nat
  closed :: nat
  stdout :: "string list"

definition world0 :: world where
  "world0 = \<lparr>calls = [], opened = 0, closed = 0, stdout = []\<rparr>"

definition print :: "string \<Rightarrow> world \<Rightarrow> world" where
  "print line w = w\<lparr>stdout := stdout w @ [line]\<rparr>"

text \<open>The two \<^verbatim>\<open>except\<close> clauses of \<^verbatim>\<open>_send_command\<close>: both return \<^verbatim>\<open>None\<close>.\<close>

fun handler :: "controller \<Rightarrow> fault \<Rightarrow> world \<Rightarrow> pyval \<times> world" where
  "handler c Timeout w = (PNone, print (''Timeout: No response from bulb at '' @ bulb_ip c) w)"
| "handler c (Failure m) w = (PNone, print (''Error communicating with bulb: '' @ m) w)"

text \<open>
  \<^verbatim>\<open>_send_command\<close>.  The socket is created first; \<^verbatim>\<open>sock.close()\<close> is the statement
  before \<^verbatim>\<open>return response\<close> and nowhere else.  The value returned on success is
  whatever the reply parsed to, \<^verbatim>\<open>None\<close> included (the JSON text \<^verbatim>\<open>null\<close>).
\<close>

definition send_command :: "network \<Rightarrow> controller \<Rightarrow> pyval \<Rightarrow> world \<Rightarrow> pyval \<times> world" where
  "send_command net c command w =
     (let w1 = w\<lparr>calls := calls w @ [(bulb_ip c, command)]\<rparr> in
      case net c command of
        Fault AtCreate f \<Rightarrow> handler c f w1
      | Fault AtSend f \<Rightarrow> handler c f (w1\<lparr>opened := opened w1 + 1\<rparr>)
      | Fault AtRecv f \<Rightarrow> handler c f (w1\<lparr>opened := opened w1 + 1\<rparr>)
      | Malformed data m \<Rightarrow> handler c (Failure m) (w1\<lparr>opened := opened w1 + 1\<rparr>)
      | Reply response \<Rightarrow>
          (response, w1\<lparr>opened := opened w1 + 1, closed := closed w1 + 1\<rparr>))"

section \<open>The device controller\<close>

text \<open>The two commands: \<^verbatim>\<open>{"method": "getPilot"}\<close> and \<^verbatim>\<open>{"method": "setPilot", "params": {...}}\<close>.\<close>

definition getPilot :: pyval where
  "getPilot = PDict [(''method'', PStr ''getPilot'')]"

definition setPilot :: "(string \<times> pyval) list \<Rightarrow> pyval" where
  "setPilot params = PDict [(''method'', PStr ''setPilot''), (''params'', PDict params)]"

definition get_status :: "network \<Rightarrow> controller \<Rightarrow> world \<Rightarrow> pyval \<times> world" where
  "get_status net c w = send_command net c getPilot w"

text \<open>
  \<^verbatim>\<open>response is not None and response.get("result", {}).get("success", False)\<close>, the
  last line of every mutating method.
\<close>

definition success_of :: "pyval \<Rightarrow> pyval outcome" where
  "success_of response =
     (if response = PNone then Returned (PBool False)
      else case py_get response ''result'' (PDict []) of
             Raised e \<Rightarrow> Raised e
           | Returned r \<Rightarrow> py_get r ''success'' (PBool False))"

definition set_pilot :: "network \<Rightarrow> controller \<Rightarrow> (string \<times> pyval) list \<Rightarrow> world \<Rightarrow> pyval outcome \<times> world" where
  "set_pilot net c params w =
     (let (response, w') = send_command net c (setPilot params) w
      in (success_of response, w'))"

definition turn_on :: "network \<Rightarrow> controller \<Rightarrow> world \<Rightarrow> pyval outcome \<times> world" where
  "turn_on net c w = set_pilot net c [(''state'', PBool True)] w"

definition turn_off :: "network \<Rightarrow> controller \<Rightarrow> world \<Rightarrow> pyval outcome \<times> world" where
  "turn_off net c w = set_pilot net c [(''state'', PBool False)] w"

definition set_brightness :: "network \<Rightarrow> controller \<Rightarrow> int \<Rightarrow> world \<Rightarrow> pyval outcome \<times> world" where
  "set_brightness net c brightness w =
     (if \<not> (10 \<le> brightness \<and> brightness \<le> 100)
      then (Raised (ValueError ''Brightness must be between 10 and 100''), w)
      else set_pilot net c [(''state'', PBool True), (''dimming'', PInt brightness)] w)"

definition set_rgb_color :: "network \<Rightarrow> controller \<Rightarrow> int \<Rightarrow> int \<Rightarrow> int \<Rightarrow> int \<Rightarrow> world \<Rightarrow> pyval outcome \<times> world" where
  "set_rgb_color net c r g b brightness w =
     (if \<not> list_all (\<lambda>val. 0 \<le> val \<and> val \<le> 255) [r, g, b]
      then (Raised (ValueError ''RGB values must be between 0 and 255''), w)
      else if \<not> (10 \<le> brightness \<and> brightness \<le> 100)
      then (Raised (ValueError ''Brightness must be between 10 and 100''), w)
      else set_pilot net c
             [(''state'', PBool True), (''r'', PInt r), (''g'', PInt g), (''b'', PInt b),
              (''dimming'', PInt brightness)] w)"

definition set_color_temperature :: "network \<Rightarrow> controller \<Rightarrow> int \<Rightarrow> int \<Rightarrow> world \<Rightarrow> pyval outcome \<times> world" where
  "set_color_temperature net c temp brightness w =
     (if \<not> (2200 \<le> temp \<and> temp \<le> 6500)
      then (Raised (ValueError ''Color temperature must be between 2200K and 6500K''), w)
      else if \<not> (10 \<le> brightness \<and> brightness \<le> 100)
      then (Raised (ValueError ''Brightness must be between 10 and 100''), w)
      else set_pilot net c
             [(''state'', PBool True), (''temp'', PInt temp), (''dimming'', PInt brightness)] w)"

text \<open>\<^verbatim>\<open>set_scene\<close> has no check of its argument.\<close>

definition set_scene :: "network \<Rightarrow> controller \<Rightarrow> int \<Rightarrow> world \<Rightarrow> pyval outcome \<times> world" where
  "set_scene net c scene_id w =
     set_pilot net c [(''state'', PBool True), (''sceneId'', PInt scene_id)] w"

definition set_speed :: "network \<Rightarrow> controller \<Rightarrow> int \<Rightarrow> world \<Rightarrow> pyval outcome \<times> world" where
  "set_speed net c speed w =
     (if \<not> (10 \<le> speed \<and> speed \<le> 200)
      then (Raised (ValueError ''Speed must be between 10 and 200''), w)
      else set_pilot net c [(''speed'', PInt speed)] w)"

definition is_online :: "network \<Rightarrow> controller \<Rightarrow> world \<Rightarrow> bool \<times> world" where
  "is_online net c w = (let (status, w') = get_status net c w in (status \<noteq> PNone, w'))"

text \<open>
  The capabilities as one type, to speak of "every operation".  \<open>run_op\<close> calls the
  method; \<^verbatim>\<open>get_status\<close> and \<^verbatim>\<open>is_online\<close> never raise.
\<close>

datatype op =
    TurnOn
  | TurnOff
  | SetBrightness int
  | SetRgbColor int int int int
  | SetColorTemperature int int
  | SetScene int
  | SetSpeed int
  | GetStatus
  | IsOnline

fun run_op :: "network \<Rightarrow> controller \<Rightarrow> op \<Rightarrow> world \<Rightarrow> pyval outcome \<times> world" where
  "run_op net c TurnOn w = turn_on net c w"
| "run_op net c TurnOff w = turn_off net c w"
| "run_op net c (SetBrightness v) w = set_brightness net c v w"
| "run_op net c (SetRgbColor r g b v) w = set_rgb_color net c r g b v w"
| "run_op net c (SetColorTemperature t v) w = set_color_temperature net c t v w"
| "run_op net c (SetScene i) w = set_scene net c i w"
| "run_op net c (SetSpeed v) w = set_speed net c v w"
| "run_op net c GetStatus w = (let (status, w') = get_status net c w in (Returned status, w'))"
| "run_op net c IsOnline w = (let (b, w') = is_online net c w in (Returned (PBool b), w'))"


text \<open>
  The ranges of the arguments.  Four are the guards of the controller's methods; the
  range of a scene identifier is the guard of \<^verbatim>\<open>set_bulb_scene\<close> in the tool layer.
\<close>

fun in_range :: "op \<Rightarrow> bool" where
  "in_range (SetBrightness v) = (10 \<le> v \<and> v \<le> 100)"
| "in_range (SetRgbColor r g b v) =
     (list_all (\<lambda>val. 0 \<le> val \<and> val \<le> 255) [r, g, b] \<and> 10 \<le> v \<and> v \<le> 100)"
| "in_range (SetColorTemperature t v) = (2200 \<le> t \<and> t \<le> 6500 \<and> 10 \<le> v \<and> v \<le> 100)"
| "in_range (SetScene i) = (1 \<le> i \<and> i \<le> 32)"
| "in_range (SetSpeed v) = (10 \<le> v \<and> v \<le> 200)"
| "in_range x = True"

section \<open>Discovery\<close>

text \<open>
  \<^verbatim>\<open>subprocess.run(["nmap", "-sn", network_range], ..., timeout=120)\<close> is the
  environment's: it raises \<^verbatim>\<open>TimeoutExpired\<close>, \<^verbatim>\<open>FileNotFoundError\<close> or another
  exception, or it completes, and then \<open>Completed\<close> carries the list that
  \<^verbatim>\<open>re.findall\<close> extracts from its output (every dotted quad in the text, in order,
  repeated when the text repeats it).
\<close>

datatype nmap_result =
    TimeoutExpired
  | FileNotFoundError
  | OtherError string
  | Completed "string list"

text \<open>The loop over \<^verbatim>\<open>ips\<close>, with the list \<^verbatim>\<open>bulb_ips\<close> built so far.\<close>

fun probe_all :: "network \<Rightarrow> string list \<Rightarrow> string list \<Rightarrow> world \<Rightarrow> string list \<times> world" where
  "probe_all net [] bulb_ips w = (bulb_ips, w)"
| "probe_all net (ip # ips) bulb_ips w =
     (let (online, w') = is_online net (WizBulbController ip 38899 1) w in
      if online then probe_all net ips (bulb_ips @ [ip]) (print (''Found WiZ bulb at: '' @ ip) w')
      else probe_all net ips bulb_ips w')"

definition discover_bulbs :: "(string \<Rightarrow> nmap_result) \<Rightarrow> network \<Rightarrow> string \<Rightarrow> world \<Rightarrow> string list \<times> world" where
  "discover_bulbs nmap net network_range w =
     (case nmap network_range of
        Completed ips \<Rightarrow> probe_all net ips [] w
      | TimeoutExpired \<Rightarrow> ([], print ''Network scan timed out'' w)
      | FileNotFoundError \<Rightarrow>
          ([], print ''nmap not found. Please install nmap to use bulb discovery.'' w)
      | OtherError m \<Rightarrow> ([], print (''Error during discovery: '' @ m) w))"

section \<open>The tool layer\<close>

definition BULB_IP :: string where
  "BULB_IP = ''192.168.1.8''"

definition bulb :: controller where
  "bulb = WizBulbController BULB_IP 38899 2"

text \<open>
  The body of \<^verbatim>\<open>get_bulb_status\<close> after the test for \<^verbatim>\<open>None\<close>.  The first
  \<^verbatim>\<open>status.get("result", {}).get("state", False)\<close> raises unless the reply and its
  \<^verbatim>\<open>result\<close> are dictionaries; after it \<^verbatim>\<open>pilot_data\<close> is a dictionary and nothing
  raises.  New keys go to the end of the result, as a Python dictionary keeps them.
\<close>

fun pilot_fields :: "(pyval \<Rightarrow> string) \<Rightarrow> pyval \<Rightarrow> (string \<times> pyval) list outcome" where
  "pilot_fields repr (PDict pilot_data) =
     Returned
       ([(''bulb_ip'', PStr BULB_IP),
         (''status'', PStr ''online''),
         (''state'', PStr (if py_truthy (case map_of pilot_data ''state'' of Some v \<Rightarrow> v | None \<Rightarrow> PBool False)
                           then ''on'' else ''off''))]
        @ (case map_of pilot_data ''dimming'' of
             Some d \<Rightarrow> [(''brightness'', PStr (py_str repr d @ ''%''))]
           | None \<Rightarrow> [])
        @ (case (map_of pilot_data ''r'', map_of pilot_data ''g'', map_of pilot_data ''b'') of
             (Some r, Some g, Some b) \<Rightarrow>
               [(''color'', PStr (''RGB('' @ py_str repr r @ '', '' @ py_str repr g @ '', '' @ py_str repr b @ '')''))]
           | _ \<Rightarrow>
               (case map_of pilot_data ''temp'' of
                  Some t \<Rightarrow> [(''color_temperature'', PStr (py_str repr t @ ''K''))]
                | None \<Rightarrow> []))
        @ (case map_of pilot_data ''sceneId'' of
             Some s \<Rightarrow> [(''scene_id'', s)]
           | None \<Rightarrow> []))"
| "pilot_fields repr v = (case py_get v ''state'' (PBool False) of Raised e \<Rightarrow> Raised e | Returned x \<Rightarrow> Returned [])"

definition interpret_status :: "(pyval \<Rightarrow> string) \<Rightarrow> pyval \<Rightarrow> (string \<times> pyval) list outcome" where
  "interpret_status repr status =
     (case py_get status ''result'' (PDict []) of
        Raised e \<Rightarrow> Raised e
      | Returned pilot_data \<Rightarrow> pilot_fields repr pilot_data)"

definition get_bulb_status :: "(pyval \<Rightarrow> string) \<Rightarrow> network \<Rightarrow> world \<Rightarrow> pyval \<times> world" where
  "get_bulb_status repr net w =
     (let (status, w') = get_status net bulb w in
      if status = PNone
      then (PDict [(''error'', PStr (''Failed to get status from bulb at '' @ BULB_IP)),
                   (''bulb_ip'', PStr BULB_IP),
                   (''status'', PStr ''offline'')], w')
      else case interpret_status repr status of
             Returned result \<Rightarrow> (PDict result, w')
           | Raised e \<Rightarrow>
               (PDict [(''error'', PStr (''Error getting bulb status: '' @ exc_str e)),
                       (''bulb_ip'', PStr BULB_IP),
                       (''status'', PStr ''error'')], w'))"

definition rgb_text :: "int \<Rightarrow> int \<Rightarrow> int \<Rightarrow> string" where
  "rgb_text r g b = ''RGB('' @ str_int r @ '', '' @ str_int g @ '', '' @ str_int b @ '')''"

definition set_bulb_brightness :: "network \<Rightarrow> int \<Rightarrow> world \<Rightarrow> pyval \<times> world" where
  "set_bulb_brightness net brightness w =
     (if \<not> (10 \<le> brightness \<and> brightness \<le> 100)
      then (PDict [(''operation'', PStr ''set_brightness''),
                   (''bulb_ip'', PStr BULB_IP),
                   (''success'', PBool False),
                   (''error'', PStr ''Brightness must be between 10 and 100''),
                   (''requested_brightness'', PInt brightness)], w)
      else case set_brightness net bulb brightness w of
             (Returned success, w') \<Rightarrow>
               (PDict [(''operation'', PStr ''set_brightness''),
                       (''bulb_ip'', PStr BULB_IP),
                       (''success'', success),
                       (''brightness'', PInt brightness),
                       (''message'', PStr (if py_truthy success
                                           then ''Brightness set to '' @ str_int brightness @ ''%''
                                           else ''Failed to set brightness to '' @ str_int brightness @ ''%''))], w')
           | (Raised e, w') \<Rightarrow>
               (PDict [(''operation'', PStr ''set_brightness''),
                       (''bulb_ip'', PStr BULB_IP),
                       (''success'', PBool False),
                       (''brightness'', PInt brightness),
                       (''error'', PStr (''Error setting brightness: '' @ exc_str e))], w'))"

definition set_bulb_rgb_color :: "network \<Rightarrow> int \<Rightarrow> int \<Rightarrow> int \<Rightarrow> int \<Rightarrow> world \<Rightarrow> pyval \<times> world" where
  "set_bulb_rgb_color net r g b brightness w =
     (if \<not> list_all (\<lambda>val. 0 \<le> val \<and> val \<le> 255) [r, g, b]
      then (PDict [(''operation'', PStr ''set_rgb_color''),
                   (''bulb_ip'', PStr BULB_IP),
                   (''success'', PBool False),
                   (''error'', PStr ''RGB values must be between 0 and 255''),
                   (''requested_color'', PStr (rgb_text r g b))], w)
      else if \<not> (10 \<le> brightness \<and> brightness \<le> 100)
      then (PDict [(''operation'', PStr ''set_rgb_color''),
                   (''bulb_ip'', PStr BULB_IP),
                   (''success'', PBool False),
                   (''error'', PStr ''Brightness must be between 10 and 100''),
                   (''requested_brightness'', PInt brightness)], w)
      else case set_rgb_color net bulb r g b brightness w of
             (Returned success, w') \<Rightarrow>
               (PDict [(''operation'', PStr ''set_rgb_color''),
                       (''bulb_ip'', PStr BULB_IP),
                       (''success'', success),
                       (''color'', PStr (rgb_text r g b)),
                       (''brightness'', PInt brightness),
                       (''message'', PStr (if py_truthy success
                                           then ''Color set to '' @ rgb_text r g b @ '' at '' @ str_int brightness @ ''% brightness''
                                           else ''Failed to set RGB color''))], w')
           | (Raised e, w') \<Rightarrow>
               (PDict [(''operation'', PStr ''set_rgb_color''),
                       (''bulb_ip'', PStr BULB_IP),
                       (''success'', PBool False),
                       (''color'', PStr (rgb_text r g b)),
                       (''brightness'', PInt brightness),
                       (''error'', PStr (''Error setting RGB color: '' @ exc_str e))], w'))"

definition set_bulb_color_temperature :: "network \<Rightarrow> int \<Rightarrow> int \<Rightarrow> world \<Rightarrow> pyval \<times> world" where
  "set_bulb_color_temperature net temperature brightness w =
     (if \<not> (2200 \<le> temperature \<and> temperature \<le> 6500)
      then (PDict [(''operation'', PStr ''set_color_temperature''),
                   (''bulb_ip'', PStr BULB_IP),
                   (''success'', PBool False),
                   (''error'', PStr ''Color temperature must be between 2200K and 6500K''),
                   (''requested_temperature'', PStr (str_int temperature @ ''K''))], w)
      else if \<not> (10 \<le> brightness \<and> brightness \<le> 100)
      then (PDict [(''operation'', PStr ''set_color_temperature''),
                   (''bulb_ip'', PStr BULB_IP),
                   (''success'', PBool False),
                   (''error'', PStr ''Brightness must be between 10 and 100''),
                   (''requested_brightness'', PInt brightness)], w)
      else case set_color_temperature net bulb temperature brightness w of
             (Returned success, w') \<Rightarrow>
               (PDict [(''operation'', PStr ''set_color_temperature''),
                       (''bulb_ip'', PStr BULB_IP),
                       (''success'', success),
                       (''temperature'', PStr (str_int temperature @ ''K'')),
                       (''brightness'', PInt brightness),
                       (''message'', PStr (if py_truthy success
                                           then ''Color temperature set to '' @ str_int temperature @ ''K at '' @ str_int brightness @ ''% brightness''
                                           else ''Failed to set color temperature''))], w')
           | (Raised e, w') \<Rightarrow>
               (PDict [(''operation'', PStr ''set_color_temperature''),
                       (''bulb_ip'', PStr BULB_IP),
                       (''success'', PBool False),
                       (''temperature'', PStr (str_int temperature @ ''K'')),
                       (''brightness'', PInt brightness),
                       (''error'', PStr (''Error setting color temperature: '' @ exc_str e))], w'))"

definition scene_names :: "(int \<times> string) list" where
  "scene_names =
     [(1, ''Ocean''), (2, ''Romance''), (3, ''Sunset''), (4, ''Party''), (5, ''Fireplace''),
      (6, ''Cozy''), (7, ''Forest''), (8, ''Pastel Colors''), (9, ''Wake up''), (10, ''Bedtime''),
      (11, ''Warm White''), (12, ''Daylight''), (13, ''Cool white''), (14, ''Night light''),
      (15, ''Focus''), (16, ''Relax''), (17, ''True colors''), (18, ''TV time''), (19, ''Plantgrowth''),
      (20, ''Spring''), (21, ''Summer''), (22, ''Fall''), (23, ''Deepdive''), (24, ''Jungle''),
      (25, ''Mojito''), (26, ''Club''), (27, ''Christmas''), (28, ''Halloween''), (29, ''Candlelight''),
      (30, ''Golden white''), (31, ''Pulse''), (32, ''Steampunk'')]"

definition set_bulb_scene :: "network \<Rightarrow> int \<Rightarrow> world \<Rightarrow> pyval \<times> world" where
  "set_bulb_scene net scene_id w =
     (if \<not> (1 \<le> scene_id \<and> scene_id \<le> 32)
      then (PDict [(''operation'', PStr ''set_scene''),
                   (''bulb_ip'', PStr BULB_IP),
                   (''success'', PBool False),
                   (''error'', PStr ''Scene ID must be between 1 and 32''),
                   (''requested_scene_id'', PInt scene_id)], w)
      else case set_scene net bulb scene_id w of
             (Returned success, w') \<Rightarrow>
               (let scene_name = (case map_of scene_names scene_id of
                                    Some n \<Rightarrow> n
                                  | None \<Rightarrow> ''Scene '' @ str_int scene_id)
                in (PDict [(''operation'', PStr ''set_scene''),
                           (''bulb_ip'', PStr BULB_IP),
                           (''success'', success),
                           (''scene_id'', PInt scene_id),
                           (''scene_name'', PStr scene_name),
                           (''message'', PStr (if py_truthy success
                                               then ''Scene set to '' @ [CHR 0x27] @ scene_name @ [CHR 0x27] @ '' (ID: '' @ str_int scene_id @ '')''
                                               else ''Failed to set scene '' @ [CHR 0x27] @ scene_name @ [CHR 0x27]))], w'))
           | (Raised e, w') \<Rightarrow>
               (PDict [(''operation'', PStr ''set_scene''),
                       (''bulb_ip'', PStr BULB_IP),
                       (''success'', PBool False),
                       (''scene_id'', PInt scene_id),
                       (''error'', PStr (''Error setting scene: '' @ exc_str e))], w'))"

section \<open>Channels and replies used in the statements\<close>

text \<open>An exchange fails when it ends in an \<^verbatim>\<open>except\<close> clause: no parsed reply.\<close>

fun exchange_fails :: "net_event \<Rightarrow> bool" where
  "exchange_fails (Fault st f) = True"
| "exchange_fails (Malformed data m) = True"
| "exchange_fails (Reply v) = False"



text \<open>What \<^verbatim>\<open>is_online\<close> asks of a probe: a reply that parsed to anything but \<^verbatim>\<open>None\<close>.\<close>

fun answers :: "net_event \<Rightarrow> bool" where
  "answers (Reply v) = (v \<noteq> PNone)"
| "answers ev = False"

text \<open>Fake channels: one that never answers, one whose answer is not JSON, one that
  answers every command with the same document.\<close>

definition silent :: network where
  "silent c command = Fault AtRecv Timeout"

definition garbled :: "string \<Rightarrow> string \<Rightarrow> network" where
  "garbled data m c command = Malformed data m"

definition replying :: "pyval \<Rightarrow> network" where
  "replying v c command = Reply v"

definition only :: "string list \<Rightarrow> network" where
  "only ips c command = (if bulb_ip c \<in> set ips then Reply (PDict []) else Fault AtRecv Timeout)"

definition sweep :: "string list \<Rightarrow> string \<Rightarrow> nmap_result" where
  "sweep ips network_range = Completed ips"

definition sweep_timeout :: "string \<Rightarrow> nmap_result" where
  "sweep_timeout network_range = TimeoutExpired"

text \<open>A stand-in for \<^verbatim>\<open>repr\<close> where no float, list or dictionary is formatted.\<close>

definition no_repr :: "pyval \<Rightarrow> string" where
  "no_repr v = []"

text \<open>Reading a key of a returned dictionary, and the shapes of a result.\<close>

fun field :: "pyval \<Rightarrow> string \<Rightarrow> pyval option" where
  "field (PDict kvs) k = map_of kvs k"
| "field v k = None"

fun raised_value_error :: "'a outcome \<Rightarrow> bool" where
  "raised_value_error (Raised (ValueError m)) = True"
| "raised_value_error r = False"

definition rejected :: "pyval \<times> world \<Rightarrow> world \<Rightarrow> bool" where
  "rejected res w =
     (snd res = w \<and> field (fst res) ''success'' = Some (PBool False)
      \<and> (case field (fst res) ''error'' of Some (PStr m) \<Rightarrow> True | _ \<Rightarrow> False))"

text \<open>The methods of the controller that check their argument (\<^verbatim>\<open>set_scene\<close> does not).\<close>

fun guarded :: "op \<Rightarrow> bool" where
  "guarded (SetBrightness v) = True"
| "guarded (SetRgbColor r g b v) = True"
| "guarded (SetColorTemperature t v) = True"
| "guarded (SetSpeed v) = True"
| "guarded x = False"

text \<open>What an operation returns when it reports failure.\<close>

fun failure_value :: "op \<Rightarrow> pyval" where
  "failure_value GetStatus = PNone"
| "failure_value x = PBool False"





section \<open>Release of the socket\<close>

lemma handler_fst [simp]: "fst (handler c f w) = PNone"
  by (cases f) simp_all

lemma handler_calls [simp]: "calls (snd (handler c f w)) = calls w"
  by (cases f) (simp_all add: print_def)

lemma handler_sockets [simp]:
  "opened (snd (handler c f w)) = opened w" "closed (snd (handler c f w)) = closed w"
  by (cases f; simp add: print_def)+

lemma send_command_calls:
  "calls (snd (send_command net c command w)) = calls w @ [(bulb_ip c, command)]"
  by (auto simp: send_command_def Let_def print_def split: net_event.splits stage.splits)

lemma send_command_fails:
  "exchange_fails (net c command) \<Longrightarrow> fst (send_command net c command w) = PNone"
  by (cases "net c command" rule: exchange_fails.cases)
     (auto simp: send_command_def Let_def split: stage.splits)

lemma send_command_reply:
  "net c command = Reply v \<Longrightarrow> fst (send_command net c command w) = v"
  by (simp add: send_command_def Let_def)

text \<open>
  C2.  The exchange is meant to give its socket back on every path.  With a bulb that
  does not answer, and with one whose answer is not JSON, \<^verbatim>\<open>_send_command\<close> returns
  \<^verbatim>\<open>None\<close> with one socket created and none closed; only the path of a parsed reply
  closes it.
\<close>

theorem C2_socket_not_closed_on_failure:
  "send_command silent bulb getPilot world0
     = (PNone, \<lparr>calls = [(''192.168.1.8'', getPilot)], opened = 1, closed = 0,
                stdout = [''Timeout: No response from bulb at 192.168.1.8'']\<rparr>)
   \<and> send_command (garbled ''not json'' ''Expecting value: line 1 column 1 (char 0)'') bulb getPilot world0
     = (PNone, \<lparr>calls = [(''192.168.1.8'', getPilot)], opened = 1, closed = 0,
                stdout = [''Error communicating with bulb: Expecting value: line 1 column 1 (char 0)'']\<rparr>)
   \<and> send_command (replying (PDict [])) bulb getPilot world0
     = (PDict [], \<lparr>calls = [(''192.168.1.8'', getPilot)], opened = 1, closed = 1, stdout = []\<rparr>)"
  by (simp add: send_command_def silent_def garbled_def replying_def bulb_def BULB_IP_def
        WizBulbController_def world0_def print_def)

section \<open>Timeout and parse failure\<close>

text \<open>
  C3 as stated fails: a bulb that does not answer and a bulb whose answer is not JSON
  give the caller the same value, \<^verbatim>\<open>None\<close> from the channel and \<^verbatim>\<open>False\<close> from
  \<^verbatim>\<open>turn_on\<close>.
\<close>

theorem C3_counterexample:
  "fst (send_command silent bulb getPilot world0)
     = fst (send_command (garbled ''not json'' ''Expecting value'') bulb getPilot world0)
   \<and> fst (turn_on silent bulb world0) = Returned (PBool False)
   \<and> fst (turn_on (garbled ''not json'' ''Expecting value'') bulb world0) = Returned (PBool False)"
  by (simp add: send_command_def silent_def garbled_def Let_def turn_on_def set_pilot_def success_of_def)

lemma send_command_timeout:
  "net c command = Fault st Timeout \<Longrightarrow>
     send_command net c command w
       = (PNone, w\<lparr>calls := calls w @ [(bulb_ip c, command)],
                    opened := (if st = AtCreate then opened w else opened w + 1),
                    stdout := stdout w @ [''Timeout: No response from bulb at '' @ bulb_ip c]\<rparr>)"
  by (cases st) (simp_all add: send_command_def Let_def print_def)

lemma send_command_malformed:
  "net c command = Malformed data m \<Longrightarrow>
     send_command net c command w
       = (PNone, w\<lparr>calls := calls w @ [(bulb_ip c, command)],
                    opened := opened w + 1,
                    stdout := stdout w @ [''Error communicating with bulb: '' @ m]\<rparr>)"
  by (simp add: send_command_def Let_def print_def)

text \<open>
  C3, amended.  Take a channel on which every exchange times out and a channel on which
  every exchange delivers a datagram that does not parse.  \<^verbatim>\<open>_send_command\<close> returns
  \<^verbatim>\<open>None\<close> on both.  Every operation gives the same result on both, whatever its
  arguments; with arguments in range that result is \<^verbatim>\<open>False\<close> (\<^verbatim>\<open>None\<close> for
  \<^verbatim>\<open>get_status\<close>, \<^verbatim>\<open>False\<close> for \<^verbatim>\<open>is_online\<close>).  After the operation the two worlds have
  the same commands sent and the same sockets closed, and the same sockets created when
  the timeout came after the socket was created: they differ in the line printed, which
  for an operation with arguments in range names the address after a timeout and carries
  the exception's text after a parse failure.  The datagram itself is dropped: another
  datagram failing with the same text leaves the same world.
\<close>

theorem C3_failures_return_the_same_value:
  assumes "\<And>command. net1 c command = Fault st Timeout"
    and "\<And>command. net2 c command = Malformed data m"
  shows "fst (send_command net1 c command w) = PNone
       \<and> fst (send_command net2 c command w) = PNone
       \<and> fst (run_op net1 c x w) = fst (run_op net2 c x w)
       \<and> (in_range x \<longrightarrow> fst (run_op net1 c x w) = Returned (failure_value x))
       \<and> calls (snd (run_op net1 c x w)) = calls (snd (run_op net2 c x w))
       \<and> closed (snd (run_op net1 c x w)) = closed (snd (run_op net2 c x w))
       \<and> (st \<noteq> AtCreate \<longrightarrow> opened (snd (run_op net1 c x w)) = opened (snd (run_op net2 c x w)))
       \<and> (in_range x \<longrightarrow>
            stdout (snd (run_op net1 c x w))
              = stdout w @ [''Timeout: No response from bulb at '' @ bulb_ip c]
            \<and> stdout (snd (run_op net2 c x w))
              = stdout w @ [''Error communicating with bulb: '' @ m])
       \<and> snd (send_command (garbled data' m) c command w) = snd (send_command net2 c command w)"
proof -
  note t = send_command_timeout [where net = net1 and c = c and st = st, OF assms(1)]
  note g = send_command_malformed [where net = net2 and c = c and data = data and m = m, OF assms(2)]
  have g': "send_command (garbled data' m) c command w
       = (PNone, w\<lparr>calls := calls w @ [(bulb_ip c, command)],
                    opened := opened w + 1,
                    stdout := stdout w @ [''Error communicating with bulb: '' @ m]\<rparr>)"
    by (rule send_command_malformed) (simp add: garbled_def)
  have channel: "fst (send_command net1 c command w) = PNone"
      "fst (send_command net2 c command w) = PNone"
      "snd (send_command (garbled data' m) c command w) = snd (send_command net2 c command w)"
    by (simp_all add: t g g')
  have ops: "fst (run_op net1 c x w) = fst (run_op net2 c x w)"
      "in_range x \<longrightarrow> fst (run_op net1 c x w) = Returned (failure_value x)"
      "calls (snd (run_op net1 c x w)) = calls (snd (run_op net2 c x w))"
      "closed (snd (run_op net1 c x w)) = closed (snd (run_op net2 c x w))"
      "st \<noteq> AtCreate \<longrightarrow> opened (snd (run_op net1 c x w)) = opened (snd (run_op net2 c x w))"
      "in_range x \<longrightarrow>
            stdout (snd (run_op net1 c x w))
              = stdout w @ [''Timeout: No response from bulb at '' @ bulb_ip c]
            \<and> stdout (snd (run_op net2 c x w))
              = stdout w @ [''Error communicating with bulb: '' @ m]"
    by (cases x;
        simp add: turn_on_def turn_off_def set_brightness_def set_rgb_color_def
          set_color_temperature_def set_scene_def set_speed_def get_status_def is_online_def
          set_pilot_def success_of_def t g)+
  from channel ops show ?thesis by (intro conjI)
qed

theorem C3_failures_return_the_same_value_witness:
  "fst (send_command silent bulb getPilot world0) = PNone
   \<and> fst (send_command (garbled ''not json'' ''Expecting value'') bulb getPilot world0) = PNone
   \<and> fst (run_op silent bulb TurnOn world0)
       = fst (run_op (garbled ''not json'' ''Expecting value'') bulb TurnOn world0)
   \<and> in_range TurnOn
   \<and> fst (run_op silent bulb TurnOn world0) = Returned (PBool False)
   \<and> fst (run_op silent bulb IsOnline world0) = Returned (PBool False)
   \<and> opened (snd (run_op silent bulb TurnOn world0))
       = opened (snd (run_op (garbled ''not json'' ''Expecting value'') bulb TurnOn world0))
   \<and> stdout (snd (run_op silent bulb TurnOn world0))
       = [''Timeout: No response from bulb at 192.168.1.8'']
   \<and> stdout (snd (run_op (garbled ''not json'' ''Expecting value'') bulb TurnOn world0))
       = [''Error communicating with bulb: Expecting value'']
   \<and> snd (send_command (garbled ''<html>'' ''Expecting value'') bulb getPilot world0)
       = snd (send_command (garbled ''not json'' ''Expecting value'') bulb getPilot world0)"
proof -
  have h1: "\<And>command. silent bulb command = Fault AtRecv Timeout"
    by (simp add: silent_def)
  have h2: "\<And>command. garbled ''not json'' ''Expecting value'' bulb command
              = Malformed ''not json'' ''Expecting value''"
    by (simp add: garbled_def)
  have ip: "bulb_ip bulb = ''192.168.1.8''"
    by (simp add: bulb_def BULB_IP_def WizBulbController_def)
  have out: "stdout world0 = []"
    by (simp add: world0_def)
  show ?thesis
    using C3_failures_return_the_same_value
        [where ?net1.0 = silent and ?net2.0 = "garbled ''not json'' ''Expecting value''"
           and c = bulb and command = getPilot and st = AtRecv and data = "''not json''"
           and m = "''Expecting value''" and w = world0 and data' = "''<html>''"
           and x = TurnOn, OF h1 h2]
      C3_failures_return_the_same_value
        [where ?net1.0 = silent and ?net2.0 = "garbled ''not json'' ''Expecting value''"
           and c = bulb and command = getPilot and st = AtRecv and data = "''not json''"
           and m = "''Expecting value''" and w = world0 and data' = "''<html>''"
           and x = IsOnline, OF h1 h2]
    by (auto simp: ip out split_beta)
qed

section \<open>Failed exchanges are ordinary results\<close>

lemma success_of_None [simp]: "success_of PNone = Returned (PBool False)"
  by (simp add: success_of_def)

lemma set_pilot_fst:
  "fst (set_pilot net c params w) = success_of (fst (send_command net c (setPilot params) w))"
  by (simp add: set_pilot_def split_beta)

lemma set_pilot_calls:
  "calls (snd (set_pilot net c params w)) = calls w @ [(bulb_ip c, setPilot params)]"
  by (simp add: set_pilot_def split_beta send_command_calls)

text \<open>
  C4.  On a channel where every exchange fails (no reply in time, an error of the
  socket, or a reply that does not parse), an operation called with arguments in range
  returns its failure value: \<^verbatim>\<open>False\<close>, and \<^verbatim>\<open>None\<close> for \<^verbatim>\<open>get_status\<close>.  The same
  holds whenever the operation reached the channel at all, whatever its arguments.
\<close>

theorem C4_failed_exchange_is_returned:
  assumes "\<And>command. exchange_fails (net c command)"
  shows "(in_range x \<longrightarrow> fst (run_op net c x w) = Returned (failure_value x))
       \<and> (calls (snd (run_op net c x w)) \<noteq> calls w \<longrightarrow>
            fst (run_op net c x w) = Returned (failure_value x))"
  using assms
  by (cases x)
     (auto simp: turn_on_def turn_off_def set_brightness_def set_rgb_color_def
        set_color_temperature_def set_scene_def set_speed_def get_status_def is_online_def
        set_pilot_fst send_command_fails split_beta)

theorem C4_failed_exchange_is_returned_witness:
  "in_range (SetBrightness 50)
   \<and> calls (snd (run_op silent bulb (SetBrightness 50) world0)) \<noteq> calls world0
   \<and> fst (run_op silent bulb (SetBrightness 50) world0) = Returned (PBool False)
   \<and> fst (run_op silent bulb IsOnline world0) = Returned (PBool False)
   \<and> fst (run_op silent bulb GetStatus world0) = Returned PNone"
proof -
  have h: "\<And>command. exchange_fails (silent bulb command)"
    by (simp add: silent_def)
  show ?thesis
    using C4_failed_exchange_is_returned [of silent bulb "SetBrightness 50" world0, OF h]
      C4_failed_exchange_is_returned [of silent bulb IsOnline world0, OF h]
      C4_failed_exchange_is_returned [of silent bulb GetStatus world0, OF h]
    by (simp add: set_brightness_def set_pilot_calls world0_def)
qed

section \<open>Success of a mutating operation\<close>











section \<open>Arguments out of range\<close>

text \<open>
  C1 as stated fails twice: the controller's \<^verbatim>\<open>set_brightness(5)\<close> raises
  \<^verbatim>\<open>ValueError\<close> rather than returning an error value, and its \<^verbatim>\<open>set_scene(0)\<close> sends
  the command.
\<close>

theorem C1_counterexample:
  "set_brightness silent bulb 5 world0
     = (Raised (ValueError ''Brightness must be between 10 and 100''), world0)
   \<and> calls (snd (set_scene silent bulb 0 world0))
     = [(''192.168.1.8'', setPilot [(''state'', PBool True), (''sceneId'', PInt 0)])]"
  by (simp add: set_brightness_def set_scene_def set_pilot_calls world0_def bulb_def BULB_IP_def
        WizBulbController_def)

text \<open>
  C1, amended.  A method of the controller that checks its argument (brightness, RGB
  colour, colour temperature, animation speed) raises \<^verbatim>\<open>ValueError\<close> on an argument out of
  range and leaves the world as it was: no exchange.  The tools \<^verbatim>\<open>set_bulb_brightness\<close>,
  \<^verbatim>\<open>set_bulb_rgb_color\<close>, \<^verbatim>\<open>set_bulb_color_temperature\<close> and \<^verbatim>\<open>set_bulb_scene\<close> return,
  on an argument out of range, a dictionary with \<^verbatim>\<open>success\<close> false and an \<^verbatim>\<open>error\<close>
  text, and leave the world as it was.
\<close>

theorem C1_out_of_range_is_refused_before_any_exchange:
  "(guarded x \<and> \<not> in_range x \<longrightarrow>
      raised_value_error (fst (run_op net c x w)) \<and> snd (run_op net c x w) = w)
   \<and> (\<not> in_range (SetBrightness v) \<longrightarrow> rejected (set_bulb_brightness net v w) w)
   \<and> (\<not> in_range (SetRgbColor r g b v) \<longrightarrow> rejected (set_bulb_rgb_color net r g b v w) w)
   \<and> (\<not> in_range (SetColorTemperature t v) \<longrightarrow> rejected (set_bulb_color_temperature net t v w) w)
   \<and> (\<not> in_range (SetScene i) \<longrightarrow> rejected (set_bulb_scene net i w) w)"
proof -
  have controller: "guarded x \<and> \<not> in_range x \<longrightarrow>
      raised_value_error (fst (run_op net c x w)) \<and> snd (run_op net c x w) = w"
    by (cases x) (auto simp: set_brightness_def set_rgb_color_def set_color_temperature_def set_speed_def)
  have brightness: "\<not> in_range (SetBrightness v) \<longrightarrow> rejected (set_bulb_brightness net v w) w"
    by (auto simp: rejected_def set_bulb_brightness_def)
  have rgb: "\<not> in_range (SetRgbColor r g b v) \<longrightarrow> rejected (set_bulb_rgb_color net r g b v w) w"
    by (auto simp: rejected_def set_bulb_rgb_color_def)
  have temp: "\<not> in_range (SetColorTemperature t v) \<longrightarrow> rejected (set_bulb_color_temperature net t v w) w"
    by (auto simp: rejected_def set_bulb_color_temperature_def)
  have scene: "\<not> in_range (SetScene i) \<longrightarrow> rejected (set_bulb_scene net i w) w"
    by (auto simp: rejected_def set_bulb_scene_def)
  from controller brightness rgb temp scene show ?thesis by (intro conjI)
qed

theorem C1_out_of_range_is_refused_before_any_exchange_witness:
  "guarded (SetSpeed 201) \<and> \<not> in_range (SetSpeed 201)
   \<and> raised_value_error (fst (run_op silent bulb (SetSpeed 201) world0))
   \<and> snd (run_op silent bulb (SetSpeed 201) world0) = world0
   \<and> rejected (set_bulb_brightness silent 101 world0) world0
   \<and> rejected (set_bulb_rgb_color silent 256 0 0 101 world0) world0
   \<and> rejected (set_bulb_color_temperature silent 2199 101 world0) world0
   \<and> rejected (set_bulb_scene silent 33 world0) world0"
  using C1_out_of_range_is_refused_before_any_exchange
    [where x = "SetSpeed 201" and net = silent and c = bulb and w = world0 and v = 101
       and r = 256 and g = 0 and b = 0 and t = 2199 and i = 33]
  by simp

section \<open>Interpretation of a status reply\<close>

lemma get_status_fst:
  "net c getPilot = Reply v \<Longrightarrow> fst (get_status net c w) = v"
  by (simp add: get_status_def send_command_reply)

lemma get_bulb_status_reply:
  assumes "net bulb getPilot = Reply v"
  shows "fst (get_bulb_status repr net w) =
     (if v = PNone
      then PDict [(''error'', PStr (''Failed to get status from bulb at '' @ BULB_IP)),
                  (''bulb_ip'', PStr BULB_IP), (''status'', PStr ''offline'')]
      else case interpret_status repr v of
             Returned result \<Rightarrow> PDict result
           | Raised e \<Rightarrow> PDict [(''error'', PStr (''Error getting bulb status: '' @ exc_str e)),
                                (''bulb_ip'', PStr BULB_IP), (''status'', PStr ''error'')])"
  using get_status_fst [of net bulb v w] assms
  by (auto simp: get_bulb_status_def split_beta split: outcome.splits)

lemma pilot_fields_color_or_temperature:
  "pilot_fields repr v = Returned res \<Longrightarrow>
     map_of res ''color'' = None \<or> map_of res ''color_temperature'' = None"
  by (cases v) (auto split: option.splits outcome.splits)

lemma interpret_status_fields:
  "interpret_status repr st = Returned res \<Longrightarrow> \<exists>v. pilot_fields repr v = Returned res"
  by (auto simp: interpret_status_def split: outcome.splits)

lemma get_bulb_status_color_or_temperature:
  "field (fst (get_bulb_status repr net w)) ''color'' = None
   \<or> field (fst (get_bulb_status repr net w)) ''color_temperature'' = None"
proof -
  define st where "st = fst (get_status net bulb w)"
  have g: "fst (get_bulb_status repr net w) =
     (if st = PNone
      then PDict [(''error'', PStr (''Failed to get status from bulb at '' @ BULB_IP)),
                  (''bulb_ip'', PStr BULB_IP), (''status'', PStr ''offline'')]
      else case interpret_status repr st of
             Returned result \<Rightarrow> PDict result
           | Raised e \<Rightarrow> PDict [(''error'', PStr (''Error getting bulb status: '' @ exc_str e)),
                                (''bulb_ip'', PStr BULB_IP), (''status'', PStr ''error'')])"
    by (simp add: get_bulb_status_def split_beta st_def split: outcome.splits)
  show ?thesis
  proof (cases "st = PNone")
    case True
    then show ?thesis by (simp add: g)
  next
    case False
    show ?thesis
    proof (cases "interpret_status repr st")
      case (Returned res)
      then obtain v where "pilot_fields repr v = Returned res"
        using interpret_status_fields by blast
      then have "map_of res ''color'' = None \<or> map_of res ''color_temperature'' = None"
        by (rule pilot_fields_color_or_temperature)
      then show ?thesis using False Returned by (simp add: g)
    next
      case (Raised e)
      then show ?thesis using False by (simp add: g)
    qed
  qed
qed

text \<open>
  C6.  For a reply that is a dictionary whose \<^verbatim>\<open>result\<close> is the dictionary \<open>pd\<close>, the
  status reports: power from the truth of \<^verbatim>\<open>state\<close> (off when the key is missing);
  a brightness exactly when \<open>pd\<close> has \<^verbatim>\<open>dimming\<close>; a colour exactly when \<open>pd\<close> has
  \<^verbatim>\<open>r\<close>, \<^verbatim>\<open>g\<close> and \<^verbatim>\<open>b\<close>; a colour temperature exactly when it has \<^verbatim>\<open>temp\<close> and not all
  three of \<^verbatim>\<open>r\<close>, \<^verbatim>\<open>g\<close>, \<^verbatim>\<open>b\<close>.  The reply r=255, g=0, b=0, dimming=80, state=true gives
  on, 80%, RGB(255, 0, 0) and neither colour temperature nor scene; the reply temp=4000,
  dimming=100, state=true gives on, 100%, 4000K and no colour.
\<close>

theorem C6_status_interpretation:
  assumes "net bulb getPilot = Reply (PDict kvs)"
    and "map_of kvs ''result'' = Some (PDict pd)"
  shows "field (fst (get_bulb_status repr net w)) ''state''
           = Some (PStr (if py_truthy (case map_of pd ''state'' of Some v \<Rightarrow> v | None \<Rightarrow> PBool False)
                         then ''on'' else ''off''))
       \<and> field (fst (get_bulb_status repr net w)) ''brightness''
           = map_option (\<lambda>d. PStr (py_str repr d @ ''%'')) (map_of pd ''dimming'')
       \<and> field (fst (get_bulb_status repr net w)) ''color''
           = (case (map_of pd ''r'', map_of pd ''g'', map_of pd ''b'') of
                (Some r, Some g, Some b) \<Rightarrow>
                  Some (PStr (''RGB('' @ py_str repr r @ '', '' @ py_str repr g @ '', '' @ py_str repr b @ '')''))
              | _ \<Rightarrow> None)
       \<and> field (fst (get_bulb_status repr net w)) ''color_temperature''
           = (case (map_of pd ''r'', map_of pd ''g'', map_of pd ''b'') of
                (Some r, Some g, Some b) \<Rightarrow> None
              | _ \<Rightarrow> map_option (\<lambda>t. PStr (py_str repr t @ ''K'')) (map_of pd ''temp''))
       \<and> fst (get_bulb_status repr
                 (replying (PDict [(''result'', PDict [(''r'', PInt 255), (''g'', PInt 0), (''b'', PInt 0),
                                                      (''dimming'', PInt 80), (''state'', PBool True)])])) w)
           = PDict [(''bulb_ip'', PStr ''192.168.1.8''), (''status'', PStr ''online''),
                    (''state'', PStr ''on''), (''brightness'', PStr ''80%''),
                    (''color'', PStr ''RGB(255, 0, 0)'')]
       \<and> fst (get_bulb_status repr
                 (replying (PDict [(''result'', PDict [(''temp'', PInt 4000), (''dimming'', PInt 100),
                                                      (''state'', PBool True)])])) w)
           = PDict [(''bulb_ip'', PStr ''192.168.1.8''), (''status'', PStr ''online''),
                    (''state'', PStr ''on''), (''brightness'', PStr ''100%''),
                    (''color_temperature'', PStr ''4000K'')]"
proof -
  have g: "fst (get_bulb_status repr net w) =
      (case pilot_fields repr (PDict pd) of Returned result \<Rightarrow> PDict result
       | Raised e \<Rightarrow> PDict [(''error'', PStr (''Error getting bulb status: '' @ exc_str e)),
                            (''bulb_ip'', PStr BULB_IP), (''status'', PStr ''error'')])"
    using assms get_bulb_status_reply [of net "PDict kvs" repr w]
    by (simp add: interpret_status_def)
  have state: "field (fst (get_bulb_status repr net w)) ''state''
           = Some (PStr (if py_truthy (case map_of pd ''state'' of Some v \<Rightarrow> v | None \<Rightarrow> PBool False)
                         then ''on'' else ''off''))"
    by (simp add: g)
  have brightness: "field (fst (get_bulb_status repr net w)) ''brightness''
           = map_option (\<lambda>d. PStr (py_str repr d @ ''%'')) (map_of pd ''dimming'')"
    by (simp add: g split: option.splits)
  have color: "field (fst (get_bulb_status repr net w)) ''color''
           = (case (map_of pd ''r'', map_of pd ''g'', map_of pd ''b'') of
                (Some r, Some g, Some b) \<Rightarrow>
                  Some (PStr (''RGB('' @ py_str repr r @ '', '' @ py_str repr g @ '', '' @ py_str repr b @ '')''))
              | _ \<Rightarrow> None)"
    by (simp add: g split: option.splits)
  have temp: "field (fst (get_bulb_status repr net w)) ''color_temperature''
           = (case (map_of pd ''r'', map_of pd ''g'', map_of pd ''b'') of
                (Some r, Some g, Some b) \<Rightarrow> None
              | _ \<Rightarrow> map_option (\<lambda>t. PStr (py_str repr t @ ''K'')) (map_of pd ''temp''))"
    by (simp add: g split: option.splits)
  have red: "fst (get_bulb_status repr
                 (replying (PDict [(''result'', PDict [(''r'', PInt 255), (''g'', PInt 0), (''b'', PInt 0),
                                                      (''dimming'', PInt 80), (''state'', PBool True)])])) w)
           = PDict [(''bulb_ip'', PStr ''192.168.1.8''), (''status'', PStr ''online''),
                    (''state'', PStr ''on''), (''brightness'', PStr ''80%''),
                    (''color'', PStr ''RGB(255, 0, 0)'')]"
    by (simp add: get_bulb_status_def get_status_def send_command_def replying_def Let_def
          interpret_status_def str_int_def str_nat.simps digit_char_def BULB_IP_def)
  have white: "fst (get_bulb_status repr
                 (replying (PDict [(''result'', PDict [(''temp'', PInt 4000), (''dimming'', PInt 100),
                                                      (''state'', PBool True)])])) w)
           = PDict [(''bulb_ip'', PStr ''192.168.1.8''), (''status'', PStr ''online''),
                    (''state'', PStr ''on''), (''brightness'', PStr ''100%''),
                    (''color_temperature'', PStr ''4000K'')]"
    by (simp add: get_bulb_status_def get_status_def send_command_def replying_def Let_def
          interpret_status_def str_int_def str_nat.simps digit_char_def BULB_IP_def)
  from state brightness color temp red white show ?thesis by (intro conjI)
qed

theorem C6_status_interpretation_witness:
  "field (fst (get_bulb_status no_repr
       (replying (PDict [(''result'', PDict [(''state'', PBool False), (''temp'', PInt 2700)])])) world0)) ''state''
     = Some (PStr ''off'')
   \<and> field (fst (get_bulb_status no_repr
       (replying (PDict [(''result'', PDict [(''state'', PBool False), (''temp'', PInt 2700)])])) world0)) ''brightness''
     = None
   \<and> field (fst (get_bulb_status no_repr
       (replying (PDict [(''result'', PDict [(''state'', PBool False), (''temp'', PInt 2700)])])) world0)) ''color''
     = None
   \<and> field (fst (get_bulb_status no_repr
       (replying (PDict [(''result'', PDict [(''state'', PBool False), (''temp'', PInt 2700)])])) world0)) ''color_temperature''
     = Some (PStr ''2700K'')"
proof -
  have h: "replying (PDict [(''result'', PDict [(''state'', PBool False), (''temp'', PInt 2700)])]) bulb getPilot
             = Reply (PDict [(''result'', PDict [(''state'', PBool False), (''temp'', PInt 2700)])])"
    by (simp add: replying_def)
  have k: "map_of [(''result'', PDict [(''state'', PBool False), (''temp'', PInt 2700)])] ''result''
             = Some (PDict [(''state'', PBool False), (''temp'', PInt 2700)])"
    by simp
  show ?thesis
    using C6_status_interpretation
      [where net = "replying (PDict [(''result'', PDict [(''state'', PBool False), (''temp'', PInt 2700)])])"
         and kvs = "[(''result'', PDict [(''state'', PBool False), (''temp'', PInt 2700)])]"
         and pd = "[(''state'', PBool False), (''temp'', PInt 2700)]"
         and repr = no_repr and w = world0, OF h k]
    by (simp add: str_int_def str_nat.simps digit_char_def)
qed

lemma pilot_fields_scene:
  "pilot_fields repr (PDict pd) = Returned res \<Longrightarrow> map_of res ''scene_id'' = map_of pd ''sceneId''"
  by (auto split: option.splits)

text \<open>
  C7 as stated fails: a reply with \<^verbatim>\<open>r\<close>, \<^verbatim>\<open>g\<close>, \<^verbatim>\<open>b\<close> and \<^verbatim>\<open>sceneId\<close> is reported with
  both a colour and a scene identifier.
\<close>

theorem C7_counterexample:
  "field (fst (get_bulb_status no_repr
      (replying (PDict [(''result'', PDict [(''r'', PInt 255), (''g'', PInt 0), (''b'', PInt 0),
                                           (''dimming'', PInt 80), (''state'', PBool True),
                                           (''sceneId'', PInt 4)])]))
      world0)) ''color'' = Some (PStr ''RGB(255, 0, 0)'')
   \<and> field (fst (get_bulb_status no_repr
      (replying (PDict [(''result'', PDict [(''r'', PInt 255), (''g'', PInt 0), (''b'', PInt 0),
                                           (''dimming'', PInt 80), (''state'', PBool True),
                                           (''sceneId'', PInt 4)])]))
      world0)) ''scene_id'' = Some (PInt 4)"
  by (simp add: get_bulb_status_def get_status_def send_command_def replying_def Let_def
        interpret_status_def str_int_def str_nat.simps digit_char_def)

text \<open>
  C7, amended.  No status holds both a colour and a colour temperature.  The scene
  identifier is reported on its own: for a reply whose \<^verbatim>\<open>result\<close> is the dictionary
  \<open>pd\<close>, the status has \<^verbatim>\<open>scene_id\<close> exactly when \<open>pd\<close> has \<^verbatim>\<open>sceneId\<close>, with its value,
  whatever colour field is there.
\<close>

theorem C7_color_and_temperature_exclusive:
  "\<not> (field (fst (get_bulb_status repr net w)) ''color'' \<noteq> None
       \<and> field (fst (get_bulb_status repr net w)) ''color_temperature'' \<noteq> None)
   \<and> (net bulb getPilot = Reply (PDict kvs) \<and> map_of kvs ''result'' = Some (PDict pd) \<longrightarrow>
        field (fst (get_bulb_status repr net w)) ''scene_id'' = map_of pd ''sceneId'')"
proof (rule conjI)
  show "\<not> (field (fst (get_bulb_status repr net w)) ''color'' \<noteq> None
       \<and> field (fst (get_bulb_status repr net w)) ''color_temperature'' \<noteq> None)"
    using get_bulb_status_color_or_temperature [of repr net w] by simp
next
  show "net bulb getPilot = Reply (PDict kvs) \<and> map_of kvs ''result'' = Some (PDict pd) \<longrightarrow>
        field (fst (get_bulb_status repr net w)) ''scene_id'' = map_of pd ''sceneId''"
  proof
    assume a: "net bulb getPilot = Reply (PDict kvs) \<and> map_of kvs ''result'' = Some (PDict pd)"
    then show "field (fst (get_bulb_status repr net w)) ''scene_id'' = map_of pd ''sceneId''"
      using get_bulb_status_reply [of net "PDict kvs" repr w]
      by (auto simp: interpret_status_def split: option.splits)
  qed
qed

theorem C7_color_and_temperature_exclusive_witness:
  "field (fst (get_bulb_status no_repr
      (replying (PDict [(''result'', PDict [(''temp'', PInt 2700), (''sceneId'', PInt 11)])])) world0)) ''color''
     = None
   \<and> field (fst (get_bulb_status no_repr
      (replying (PDict [(''result'', PDict [(''temp'', PInt 2700), (''sceneId'', PInt 11)])])) world0)) ''scene_id''
     = Some (PInt 11)"
proof -
  have h: "replying (PDict [(''result'', PDict [(''temp'', PInt 2700), (''sceneId'', PInt 11)])]) bulb getPilot
             = Reply (PDict [(''result'', PDict [(''temp'', PInt 2700), (''sceneId'', PInt 11)])])
           \<and> map_of [(''result'', PDict [(''temp'', PInt 2700), (''sceneId'', PInt 11)])] ''result''
             = Some (PDict [(''temp'', PInt 2700), (''sceneId'', PInt 11)])"
    by (simp add: replying_def)
  have t: "field (fst (get_bulb_status no_repr
      (replying (PDict [(''result'', PDict [(''temp'', PInt 2700), (''sceneId'', PInt 11)])])) world0)) ''color_temperature''
     = Some (PStr ''2700K'')"
    by (simp add: get_bulb_status_def get_status_def send_command_def replying_def Let_def
          interpret_status_def str_int_def str_nat.simps digit_char_def)
  show ?thesis
    using h t C7_color_and_temperature_exclusive
      [where net = "replying (PDict [(''result'', PDict [(''temp'', PInt 2700), (''sceneId'', PInt 11)])])"
         and kvs = "[(''result'', PDict [(''temp'', PInt 2700), (''sceneId'', PInt 11)])]"
         and pd = "[(''temp'', PInt 2700), (''sceneId'', PInt 11)]"
         and repr = no_repr and w = world0]
    by simp
qed

text \<open>
  C10.  A reply that parses to a dictionary with no \<^verbatim>\<open>result\<close> key is reported as a
  bulb that is online and off, with no brightness, colour, colour temperature or scene
  and no error.
\<close>

theorem C10_reply_without_result_reads_as_off:
  assumes "net bulb getPilot = Reply (PDict kvs)"
    and "map_of kvs ''result'' = None"
  shows "fst (get_bulb_status repr net w)
           = PDict [(''bulb_ip'', PStr ''192.168.1.8''), (''status'', PStr ''online''),
                    (''state'', PStr ''off'')]"
  using assms get_bulb_status_reply [of net "PDict kvs" repr w]
  by (simp add: interpret_status_def BULB_IP_def)

theorem C10_reply_without_result_reads_as_off_witness:
  "fst (get_bulb_status no_repr
          (replying (PDict [(''method'', PStr ''getPilot''),
                            (''error'', PDict [(''code'', PInt (- 32601)), (''message'', PStr ''Method not found'')])]))
          world0)
     = PDict [(''bulb_ip'', PStr ''192.168.1.8''), (''status'', PStr ''online''), (''state'', PStr ''off'')]"
proof -
  have h: "replying (PDict [(''method'', PStr ''getPilot''),
                            (''error'', PDict [(''code'', PInt (- 32601)), (''message'', PStr ''Method not found'')])])
             bulb getPilot
           = Reply (PDict [(''method'', PStr ''getPilot''),
                           (''error'', PDict [(''code'', PInt (- 32601)), (''message'', PStr ''Method not found'')])])"
    by (simp add: replying_def)
  have k: "map_of [(''method'', PStr ''getPilot''),
                   (''error'', PDict [(''code'', PInt (- 32601)), (''message'', PStr ''Method not found'')])]
             ''result'' = None"
    by simp
  show ?thesis
    using C10_reply_without_result_reads_as_off
      [where net = "replying (PDict [(''method'', PStr ''getPilot''),
                            (''error'', PDict [(''code'', PInt (- 32601)), (''message'', PStr ''Method not found'')])])"
         and repr = no_repr and w = world0, OF h k]
    by simp
qed

section \<open>Discovery\<close>

lemma is_online_fst: "fst (is_online net c w) = answers (net c getPilot)"
proof (cases "exchange_fails (net c getPilot)")
  case True
  then have "\<not> answers (net c getPilot)"
    by (cases "net c getPilot" rule: exchange_fails.cases) auto
  with True show ?thesis
    by (simp add: is_online_def get_status_def split_beta send_command_fails)
next
  case False
  then obtain v where "net c getPilot = Reply v"
    by (cases "net c getPilot" rule: exchange_fails.cases) auto
  then show ?thesis
    by (simp add: is_online_def split_beta get_status_fst)
qed

lemma probe_all_fst:
  "fst (probe_all net ips acc w)
     = acc @ filter (\<lambda>ip. answers (net (WizBulbController ip 38899 1) getPilot)) ips"
proof (induction ips arbitrary: acc w)
  case Nil
  show ?case by simp
next
  case (Cons ip ips)
  have on: "fst (is_online net (WizBulbController ip 38899 1) w)
              = answers (net (WizBulbController ip 38899 1) getPilot)"
    by (rule is_online_fst)
  show ?case
    using on by (simp add: split_beta Cons.IH)
qed

text \<open>
  C8 as stated fails: an address listed twice is returned twice, and a candidate whose
  probe is answered by the JSON number 42 is taken for a bulb.
\<close>

theorem C8_counterexample:
  "fst (discover_bulbs (sweep [''10.0.0.5'', ''10.0.0.5'']) (replying (PInt 42)) ''10.0.0.0/24'' world0)
     = [''10.0.0.5'', ''10.0.0.5'']"
  by (simp add: discover_bulbs_def sweep_def probe_all_fst replying_def del: probe_all.simps)

text \<open>
  C8, amended.  When the sweep completes with the candidates \<open>ips\<close>, discovery returns
  the candidates whose probe was answered by a datagram that parses to anything but
  \<^verbatim>\<open>null\<close>, in scan order, each as often as it is listed: without duplicates when the
  candidates have none.
\<close>

theorem C8_discovery_keeps_every_answering_candidate:
  assumes "nmap network_range = Completed ips"
  shows "fst (discover_bulbs nmap net network_range w)
           = filter (\<lambda>ip. answers (net (WizBulbController ip 38899 1) getPilot)) ips
       \<and> (distinct ips \<longrightarrow> distinct (fst (discover_bulbs nmap net network_range w)))"
  using assms by (simp add: discover_bulbs_def probe_all_fst)

theorem C8_discovery_keeps_every_answering_candidate_witness:
  "fst (discover_bulbs (sweep [''10.0.0.1'', ''10.0.0.5'', ''10.0.0.7'', ''10.0.0.9''])
          (only [''10.0.0.9'', ''10.0.0.5'']) ''10.0.0.0/24'' world0)
     = [''10.0.0.5'', ''10.0.0.9'']
   \<and> distinct [''10.0.0.1'', ''10.0.0.5'', ''10.0.0.7'', ''10.0.0.9'']
   \<and> distinct (fst (discover_bulbs (sweep [''10.0.0.1'', ''10.0.0.5'', ''10.0.0.7'', ''10.0.0.9''])
          (only [''10.0.0.9'', ''10.0.0.5'']) ''10.0.0.0/24'' world0))"
proof -
  have h: "sweep [''10.0.0.1'', ''10.0.0.5'', ''10.0.0.7'', ''10.0.0.9''] ''10.0.0.0/24''
             = Completed [''10.0.0.1'', ''10.0.0.5'', ''10.0.0.7'', ''10.0.0.9'']"
    by (simp add: sweep_def)
  show ?thesis
    using C8_discovery_keeps_every_answering_candidate
      [where nmap = "sweep [''10.0.0.1'', ''10.0.0.5'', ''10.0.0.7'', ''10.0.0.9'']"
         and net = "only [''10.0.0.9'', ''10.0.0.5'']" and w = world0, OF h]
    by (simp add: only_def WizBulbController_def)
qed

text \<open>
  C9 as stated fails: when the sweep runs out of time, discovery returns the empty list
  and has probed nothing, on a network where every address would answer; the value is
  the one a completed sweep without candidates gives.
\<close>

theorem C9_counterexample:
  "fst (discover_bulbs sweep_timeout (replying (PDict [])) ''192.168.1.0/24'' world0) = []
   \<and> calls (snd (discover_bulbs sweep_timeout (replying (PDict [])) ''192.168.1.0/24'' world0)) = []
   \<and> fst (discover_bulbs (sweep []) (replying (PDict [])) ''192.168.1.0/24'' world0) = []"
  by (simp add: discover_bulbs_def sweep_timeout_def sweep_def print_def world0_def)

text \<open>
  C9, amended.  When the sweep exceeds its 120 seconds, discovery prints
  \<^verbatim>\<open>Network scan timed out\<close> and returns the empty list; no probe is made.
\<close>

theorem C9_scan_timeout_returns_empty:
  assumes "nmap network_range = TimeoutExpired"
  shows "discover_bulbs nmap net network_range w = ([], print ''Network scan timed out'' w)"
  using assms by (simp add: discover_bulbs_def)

theorem C9_scan_timeout_returns_empty_witness:
  "discover_bulbs sweep_timeout (replying (PDict [])) ''192.168.1.0/24'' world0
     = ([], \<lparr>calls = [], opened = 0, closed = 0, stdout = [''Network scan timed out'']\<rparr>)"
proof -
  have h: "sweep_timeout ''192.168.1.0/24'' = TimeoutExpired"
    by (simp add: sweep_timeout_def)
  show ?thesis
    using C9_scan_timeout_returns_empty [where nmap = sweep_timeout and net = "replying (PDict [])"
        and w = world0, OF h]
    by (simp add: print_def world0_def)
qed

end
